theory Spec2Isabelle
  imports Main
begin

section \<open>The Docker registry proxy worker (src/index.ts)\<close>

text \<open>
  The worker is one dispatch function, \<open>handleRequest\<close>, and four helpers:
  \<open>challenge\<close>, \<open>getToken\<close>, \<open>getData\<close> and \<open>processScope\<close>. The helpers call the
  platform's \<open>fetch\<close>; the model takes the network as a parameter
  \<open>fetch :: request \<Rightarrow> error + response\<close>, so that a rejected promise is the value
  \<open>Inl e\<close> and an awaited one is \<open>Inr r\<close>.

  The platform classes \<open>URL\<close>, \<open>URLSearchParams\<close>, \<open>Headers\<close>, \<open>Request\<close> and
  \<open>Response\<close> are modelled by the data the program reads and writes. Strings are
  \<open>string\<close>; the program only splits them on a single ASCII character, joins them and
  tests for one ASCII character, which does not depend on the encoding of the others.
  A body is the list of its bytes, a \<open>string\<close> as well.

  What the platform does on its own is in the model too: the URL parser leaves out a
  port that is the default of the scheme, \<open>Response.redirect\<close> sends the serialised
  URL, \<open>text()\<close> decodes the body as UTF-8, and the \<open>Response\<close> constructor checks the
  status, encodes the text as UTF-8 and adds a \<open>Content-Type\<close> header for it. Where
  runtimes differ, the model takes the runtime as a parameter, \<open>rt :: runtime\<close>. The URL
  components of a request are those of a parsed URL, and the status text of a fetched
  response is a reason phrase. The call \<open>passThroughOnException\<close> of the event listener
  is outside the model, which ends where \<open>handleRequest\<close> returns or fails.
\<close>

subsection \<open>JavaScript strings and arrays\<close>

text \<open>\<open>s.split(c)\<close> for a one-character separator: a string with n separators has n + 1 parts.\<close>

fun split_js :: "string \<Rightarrow> char \<Rightarrow> string list" where
  "split_js [] c = [[]]"
| "split_js (x # xs) c =
     (if x = c then [] # split_js xs c
      else (case split_js xs c of [] \<Rightarrow> [[x]] | p # ps \<Rightarrow> (x # p) # ps))"

text \<open>\<open>parts.join(sep)\<close>.\<close>

fun join_js :: "string list \<Rightarrow> string \<Rightarrow> string" where
  "join_js [] sep = []"
| "join_js [p] sep = p"
| "join_js (p # q # ps) sep = p @ sep @ join_js (q # ps) sep"

text \<open>\<open>s.includes(c)\<close> for a one-character needle.\<close>

definition includes_js :: "string \<Rightarrow> char \<Rightarrow> bool" where
  "includes_js s c = (c \<in> set s)"

text \<open>
  \<open>xs.splice(start, deleteCount, ...items)\<close> for a start that is not negative; the value
  is the array after the call. A start beyond the end appends, as \<open>take\<close> and \<open>drop\<close> do.
\<close>

definition splice_js :: "'a list \<Rightarrow> nat \<Rightarrow> nat \<Rightarrow> 'a list \<Rightarrow> 'a list" where
  "splice_js xs start deleteCount items = take start xs @ items @ drop (start + deleteCount) xs"

subsection \<open>URL, URLSearchParams, Headers\<close>

text \<open>
  A parsed http(s) URL: \<open>protocol\<close> is the scheme with its colon, \<open>host\<close> the host with
  its port if it has one, \<open>pathname\<close> the serialised path (it starts with a slash and
  holds no \<open>?\<close> or \<open>#\<close>) and \<open>searchParams\<close> the decoded query, in order.
\<close>

record url =
  protocol :: string
  host :: string
  pathname :: string
  searchParams :: "(string \<times> string) list"

text \<open>
  The URL parser leaves out a port that is the default of the scheme: 443 for https and
  80 for http. On the serialised host of a parsed URL that port is the suffix \<open>:443\<close> or
  \<open>:80\<close>.
\<close>

definition drop_default_port :: "string \<Rightarrow> string \<Rightarrow> string" where
  "drop_default_port scheme authority =
     (let port = (if scheme = ''https:'' then '':443''
                  else if scheme = ''http:'' then '':80'' else '''');
          n = length authority - length port
      in if port \<noteq> [] \<and> length port \<le> length authority \<and> drop n authority = port
         then take n authority else authority)"

text \<open>
  \<open>new URL(`${origin}${path}`)\<close>, for an origin \<open>scheme://host\<close> and a path that is
  empty or a serialised path: the two arguments are the two halves of the template
  literal. The scheme ends at the first slash, the host starts after the two slashes
  and loses a default port, and an empty path is the root path. Parsing a path that is
  already serialised gives it back, which is also why the setter of \<open>pathname\<close> is a
  record update below.
\<close>

definition new_URL :: "string \<Rightarrow> string \<Rightarrow> url" where
  "new_URL origin path =
     (let scheme = takeWhile (\<lambda>c. c \<noteq> CHR ''/'') origin in
      \<lparr>protocol = scheme,
       host = drop_default_port scheme (drop (length scheme + 2) origin),
       pathname = (if path = [] then ''/'' else path),
       searchParams = []\<rparr>)"

text \<open>\<open>u.toString()\<close> for a URL that has no query, the only kind the program serialises.\<close>

definition URL_toString :: "url \<Rightarrow> string" where
  "URL_toString u = protocol u @ ''//'' @ host u @ pathname u"

text \<open>\<open>params.get(name)\<close>: the first value of that name, or null.\<close>

definition searchParams_get :: "(string \<times> string) list \<Rightarrow> string \<Rightarrow> string option" where
  "searchParams_get ps name = map_of ps name"

text \<open>
  \<open>params.set(name, value)\<close> and \<open>headers.set(name, value)\<close>: the first entry of that
  name takes the value and the later ones go; without one, the entry is appended. The
  program sets a header on an empty \<open>Headers\<close> only, where the case of names plays no
  part.
\<close>

fun set_entry :: "(string \<times> string) list \<Rightarrow> string \<Rightarrow> string \<Rightarrow> (string \<times> string) list" where
  "set_entry [] name v = [(name, v)]"
| "set_entry ((k, w) # ps) name v =
     (if k = name then (name, v) # filter (\<lambda>e. fst e \<noteq> name) ps
      else (k, w) # set_entry ps name v)"

definition searchParams_set :: "url \<Rightarrow> string \<Rightarrow> string \<Rightarrow> url" where
  "searchParams_set u name v = u\<lparr>searchParams := set_entry (searchParams u) name v\<rparr>"

definition Headers_set :: "(string \<times> string) list \<Rightarrow> string \<Rightarrow> string \<Rightarrow> (string \<times> string) list" where
  "Headers_set hs name v = set_entry hs name v"

text \<open>Whether a header list holds a name; header names match without regard to ASCII case.\<close>

definition ascii_lower :: "char \<Rightarrow> char" where
  "ascii_lower c =
     (let n = (of_char c :: nat) in if 65 \<le> n \<and> n \<le> 90 then char_of (n + 32) else c)"

definition Headers_has :: "(string \<times> string) list \<Rightarrow> string \<Rightarrow> bool" where
  "Headers_has hs name = (map ascii_lower name \<in> set (map (\<lambda>e. map ascii_lower (fst e)) hs))"

subsection \<open>UTF-8\<close>

text \<open>
  The UTF-8 decoder of the Encoding standard, which \<open>text()\<close> runs: the state is the code
  point under construction, the number of continuation bytes still needed and the
  bounds of the next byte (\<open>b mod 32\<close> is \<open>b AND 0x1F\<close>, and so on). A byte that cannot
  continue a sequence ends it with U+FFFD and is read again as a first byte, and so does
  the end of the input within a sequence.
\<close>

record utf8_state =
  code_point :: nat
  bytes_needed :: nat
  lower_boundary :: nat
  upper_boundary :: nat

definition utf8_initial :: utf8_state where
  "utf8_initial =
     \<lparr>code_point = 0, bytes_needed = 0, lower_boundary = 0x80, upper_boundary = 0xBF\<rparr>"

definition utf8_lead :: "nat \<Rightarrow> nat list \<times> utf8_state" where
  "utf8_lead b =
     (if b \<le> 0x7F then ([b], utf8_initial)
      else if 0xC2 \<le> b \<and> b \<le> 0xDF then
        ([], utf8_initial\<lparr>code_point := b mod 32, bytes_needed := 1\<rparr>)
      else if 0xE0 \<le> b \<and> b \<le> 0xEF then
        ([], \<lparr>code_point = b mod 16, bytes_needed = 2,
              lower_boundary = (if b = 0xE0 then 0xA0 else 0x80),
              upper_boundary = (if b = 0xED then 0x9F else 0xBF)\<rparr>)
      else if 0xF0 \<le> b \<and> b \<le> 0xF4 then
        ([], \<lparr>code_point = b mod 8, bytes_needed = 3,
              lower_boundary = (if b = 0xF0 then 0x90 else 0x80),
              upper_boundary = (if b = 0xF4 then 0x8F else 0xBF)\<rparr>)
      else ([0xFFFD], utf8_initial))"

definition utf8_continue :: "utf8_state \<Rightarrow> nat \<Rightarrow> nat list \<times> utf8_state" where
  "utf8_continue st b =
     (let cp = code_point st * 64 + b mod 64 in
      if bytes_needed st = 1 then ([cp], utf8_initial)
      else ([], \<lparr>code_point = cp, bytes_needed = bytes_needed st - 1,
                 lower_boundary = 0x80, upper_boundary = 0xBF\<rparr>))"

function utf8_decoder :: "utf8_state \<Rightarrow> nat list \<Rightarrow> nat list" where
  "utf8_decoder st [] = (if bytes_needed st = 0 then [] else [0xFFFD])"
| "utf8_decoder st (b # bs) =
     (if bytes_needed st = 0 then fst (utf8_lead b) @ utf8_decoder (snd (utf8_lead b)) bs
      else if b < lower_boundary st \<or> upper_boundary st < b then
        0xFFFD # utf8_decoder utf8_initial (b # bs)
      else fst (utf8_continue st b) @ utf8_decoder (snd (utf8_continue st b)) bs)"
  by pat_completeness auto
termination
  by (relation "measure (\<lambda>(st, bs). 2 * length bs + (if bytes_needed st = 0 then 0 else 1))")
    (auto simp: utf8_initial_def)

text \<open>\<open>UTF-8 decode\<close>: a byte order mark at the start is left out. The value is the text as its code points.\<close>

definition utf8_decode :: "string \<Rightarrow> nat list" where
  "utf8_decode bytes =
     (let bs = map of_char bytes;
          bs = (if take 3 bs = [0xEF, 0xBB, 0xBF] then drop 3 bs else bs)
      in utf8_decoder utf8_initial bs)"

text \<open>\<open>UTF-8 encode\<close>. The decoder gives no surrogate, so every code point here is a scalar value.\<close>

definition utf8_bytes :: "nat \<Rightarrow> nat list" where
  "utf8_bytes cp =
     (if cp \<le> 0x7F then [cp]
      else if cp \<le> 0x7FF then [0xC0 + cp div 64, 0x80 + cp mod 64]
      else if cp \<le> 0xFFFF then
        [0xE0 + cp div 4096, 0x80 + cp div 64 mod 64, 0x80 + cp mod 64]
      else [0xF0 + cp div 262144, 0x80 + cp div 4096 mod 64, 0x80 + cp div 64 mod 64,
            0x80 + cp mod 64])"

definition utf8_encode :: "nat list \<Rightarrow> string" where
  "utf8_encode cps = map char_of (concat (map utf8_bytes cps))"

subsection \<open>Request, Response, fetch\<close>

datatype redirect_policy = Follow | Manual

datatype error = TypeError | RangeError | NetworkError

record response =
  status :: nat
  statusText :: string
  headers :: "(string \<times> string) list"
  body :: string

text \<open>
  What runtimes do differently. \<open>redirect_statusText\<close> is the status text of a response
  made by \<open>Response.redirect\<close>: empty in the Fetch standard, the name of the status in
  other runtimes. \<open>null_body_status\<close> is what the \<open>Response\<close> constructor does with a
  body and a status that allows none (204, 205, 304), applied to the response asked
  for: a TypeError in the Fetch standard, which a runtime may waive for an empty body.
\<close>

record runtime =
  redirect_statusText :: "nat \<Rightarrow> string"
  null_body_status :: "response \<Rightarrow> error + response"

text \<open>
  \<open>Response.redirect(url, code)\<close> parses its URL and sends the serialisation of the
  parsed URL as \<open>Location\<close>, with the status and no body. The argument here is the
  parsed URL: for a literal its \<open>new_URL\<close>, and for \<open>newUrl.toString()\<close> the URL
  \<open>newUrl\<close> itself, which its serialisation parses back to. The program passes the
  status 301 only, which is a redirect status.
\<close>

definition Response_redirect :: "runtime \<Rightarrow> url \<Rightarrow> nat \<Rightarrow> response" where
  "Response_redirect rt parsedURL code =
     \<lparr>status = code, statusText = redirect_statusText rt code,
      headers = [(''Location'', URL_toString parsedURL)], body = ''''\<rparr>"

text \<open>
  \<open>new Response(text, {status, statusText, headers})\<close> for a string: a status outside 200
  to 599 is a RangeError; a status that allows no body is left to the runtime; otherwise
  the body is the UTF-8 encoding of the text and, as the body is a string, the header
  \<open>Content-Type: text/plain;charset=UTF-8\<close> is appended unless the headers have one.
\<close>

definition new_Response ::
  "runtime \<Rightarrow> nat list \<Rightarrow> nat \<Rightarrow> string \<Rightarrow> (string \<times> string) list \<Rightarrow> error + response" where
  "new_Response rt bodyText code reason hs =
     (if code < 200 \<or> 599 < code then Inl RangeError
      else if code = 204 \<or> code = 205 \<or> code = 304 then
        null_body_status rt
          \<lparr>status = code, statusText = reason, headers = hs, body = utf8_encode bodyText\<rparr>
      else
        Inr \<lparr>status = code, statusText = reason,
             headers =
               (if Headers_has hs ''Content-Type'' then hs
                else hs @ [(''Content-Type'', ''text/plain;charset=UTF-8'')]),
             body = utf8_encode bodyText\<rparr>)"

text \<open>A \<open>Request\<close>; the field \<open>method_js\<close> is its \<open>method\<close>.\<close>

record request =
  url :: url
  method_js :: string
  headers :: "(string \<times> string) list"
  body :: "string option"
  redirect :: redirect_policy

text \<open>\<open>fetch(u)\<close> with a URL is \<open>fetch(new Request(u))\<close>: GET, no header, no body, redirects followed.\<close>

definition Request_of_URL :: "url \<Rightarrow> request" where
  "Request_of_URL u = \<lparr>url = u, method_js = ''GET'', headers = [], body = None, redirect = Follow\<rparr>"

type_synonym fetch = "request \<Rightarrow> error + response"

subsection \<open>The program\<close>

definition DOCKER_REGISTRY :: string where
  "DOCKER_REGISTRY = ''https://registry-1.docker.io''"

text \<open>
  Lines 155 to 160 of \<open>processScope\<close>, on the string that \<open>searchParams.get\<close> returned.
\<close>

definition normalizeScope :: "string \<Rightarrow> string" where
  "normalizeScope scope =
     (let parts = split_js scope CHR '':'' in
      if length parts = 3 \<and> \<not> includes_js (parts ! 1) CHR ''/''
      then join_js (parts[1 := ''library/'' @ parts ! 1]) '':''
      else scope)"

text \<open>
  \<open>processScope\<close>: without a \<open>scope\<close> parameter \<open>get\<close> returns null, and \<open>null.split\<close>
  throws a TypeError.
\<close>

definition processScope :: "url \<Rightarrow> error + string" where
  "processScope u =
     (case searchParams_get (searchParams u) ''scope'' of
        None \<Rightarrow> Inl TypeError
      | Some scope \<Rightarrow> Inr (normalizeScope scope))"

definition challenge :: "runtime \<Rightarrow> fetch \<Rightarrow> string \<Rightarrow> string \<Rightarrow> error + response" where
  \<open>challenge rt fetch upstream hst =
     (case fetch (Request_of_URL (new_URL upstream ''/v2/'')) of
        Inl e \<Rightarrow> Inl e
      | Inr upstreamResponse \<Rightarrow>
          (let responseBody = utf8_decode (response.body upstreamResponse);
               hs = Headers_set [] ''WWW-Authenticate''
                      (''Bearer realm="https://'' @ hst @ ''/auth/token",service="docker-proxy-worker"'')
           in new_Response rt responseBody (status upstreamResponse)
                (statusText upstreamResponse) hs))\<close>

definition getToken :: "fetch \<Rightarrow> url \<Rightarrow> error + response" where
  "getToken fetch originUrl =
     (case processScope originUrl of
        Inl e \<Rightarrow> Inl e
      | Inr scope \<Rightarrow>
          (let tokenUrl = new_URL ''https://auth.docker.io'' ''/token'';
               tokenUrl = searchParams_set tokenUrl ''service'' ''registry.docker.io'';
               tokenUrl = searchParams_set tokenUrl ''scope'' scope
           in fetch (Request_of_URL tokenUrl)))"

definition getData :: "fetch \<Rightarrow> string \<Rightarrow> request \<Rightarrow> error + response" where
  "getData fetch upstream req =
     (let originUrl = url req;
          targetUrl = new_URL upstream (pathname originUrl);
          proxyRequest = \<lparr>url = targetUrl, method_js = method_js req, headers = headers req,
                          body = None, redirect = Manual\<rparr>
      in fetch proxyRequest)"

definition handleRequest :: "runtime \<Rightarrow> fetch \<Rightarrow> request \<Rightarrow> error + response" where
  "handleRequest rt fetch req =
     (let u = url req; hst = host u; path = pathname u in
      if path = ''/'' then Inr (Response_redirect rt (new_URL ''https://www.docker.com'' '''') 301)
      else if path = ''/v2/'' then challenge rt fetch DOCKER_REGISTRY hst
      else if path = ''/auth/token'' then getToken fetch u
      else
        (let parts = split_js path CHR ''/'' in
         if length parts = 5 then
           (let parts = splice_js parts 2 0 [''library''];
                newUrl = new_URL (''https://'' @ hst) '''';
                newUrl = newUrl\<lparr>pathname := join_js parts ''/''\<rparr>
            in Inr (Response_redirect rt newUrl 301))
         else getData fetch DOCKER_REGISTRY req))"

text \<open>
  The branch of \<open>handleRequest\<close> that a request takes, by the same tests in the same
  order; \<open>handleRequest_mode\<close> below ties it to \<open>handleRequest\<close>.
\<close>

datatype mode = Landing | Challenge | TokenProxy | NamespaceRedirect | GenericProxy

definition handling_mode :: "request \<Rightarrow> mode" where
  "handling_mode req =
     (let u = url req; path = pathname u in
      if path = ''/'' then Landing
      else if path = ''/v2/'' then Challenge
      else if path = ''/auth/token'' then TokenProxy
      else if length (split_js path CHR ''/'') = 5 then NamespaceRedirect
      else GenericProxy)"

text \<open>What each branch of \<open>handleRequest\<close> returns.\<close>

definition run_mode :: "mode \<Rightarrow> runtime \<Rightarrow> fetch \<Rightarrow> request \<Rightarrow> error + response" where
  "run_mode m rt fetch req =
     (case m of
        Landing \<Rightarrow> Inr (Response_redirect rt (new_URL ''https://www.docker.com'' '''') 301)
      | Challenge \<Rightarrow> challenge rt fetch DOCKER_REGISTRY (host (url req))
      | TokenProxy \<Rightarrow> getToken fetch (url req)
      | NamespaceRedirect \<Rightarrow>
          Inr (Response_redirect rt
                ((new_URL (''https://'' @ host (url req)) '''')
                   \<lparr>pathname :=
                      join_js (splice_js (split_js (pathname (url req)) CHR ''/'') 2 0 [''library''])
                        ''/''\<rparr>)
                301)
      | GenericProxy \<Rightarrow> getData fetch DOCKER_REGISTRY req)"

subsection \<open>Example runtimes, requests and upstreams\<close>

text \<open>The runtime of the Fetch standard.\<close>

definition standard_runtime :: runtime where
  "standard_runtime =
     \<lparr>redirect_statusText = (\<lambda>code. ''''), null_body_status = (\<lambda>r. Inl TypeError)\<rparr>"


definition mirror_url :: "string \<Rightarrow> (string \<times> string) list \<Rightarrow> url" where
  "mirror_url path query =
     \<lparr>protocol = ''https:'', host = ''mirror.example.com'', pathname = path, searchParams = query\<rparr>"


definition get_request :: "url \<Rightarrow> request" where
  "get_request u = \<lparr>url = u, method_js = ''GET'', headers = [], body = None, redirect = Manual\<rparr>"

definition post_request :: "url \<Rightarrow> request" where
  "post_request u =
     \<lparr>url = u, method_js = ''POST'', headers = [(''Authorization'', ''Bearer abc'')],
      body = Some ''payload'', redirect = Manual\<rparr>"

text \<open>An upstream that answers every request with 401 and one header of its own.\<close>

definition upstream_401 :: fetch where
  "upstream_401 r =
     Inr \<lparr>status = 401, statusText = ''Unauthorized'',
          response.headers = [(''Docker-Distribution-Api-Version'', ''registry/2.0'')],
          response.body = ''{}''\<rparr>"

text \<open>An upstream whose body is the single byte FF, which is not UTF-8.\<close>

definition upstream_byte_FF :: fetch where
  "upstream_byte_FF r =
     Inr \<lparr>status = 401, statusText = ''Unauthorized'', response.headers = [],
          response.body = [CHR 0xFF]\<rparr>"

text \<open>An upstream that echoes the path and the query of the request it was sent.\<close>

definition echo :: fetch where
  "echo r =
     Inr \<lparr>status = 200, statusText = ''OK'', response.headers = searchParams (url r),
          response.body = pathname (url r)\<rparr>"

section \<open>Splitting and joining\<close>

lemma split_js_not_Nil: "split_js s c \<noteq> []"
  by (induction s) (auto split: list.splits)

lemma join_js_Cons: "ps \<noteq> [] \<Longrightarrow> join_js (p # ps) sep = p @ sep @ join_js ps sep"
  by (cases ps) simp_all

lemma split_js_no_sep: "c \<notin> set s \<Longrightarrow> split_js s c = [s]"
  by (induction s) auto

lemma split_js_append: "c \<notin> set a \<Longrightarrow> split_js (a @ c # rest) c = a # split_js rest c"
  by (induction a) auto

lemma split_js_join_js:
  "ps \<noteq> [] \<Longrightarrow> \<forall>p \<in> set ps. c \<notin> set p \<Longrightarrow> split_js (join_js ps [c]) c = ps"
proof (induction ps)
  case Nil
  then show ?case by simp
next
  case (Cons p ps)
  show ?case
  proof (cases ps)
    case Nil
    with Cons.prems show ?thesis by (simp add: split_js_no_sep)
  next
    case (Cons q qs)
    with Cons.prems Cons.IH show ?thesis
      by (simp add: split_js_append)
  qed
qed

lemma split_js_parts: "p \<in> set (split_js s c) \<Longrightarrow> c \<notin> set p"
proof (induction s arbitrary: p)
  case Nil
  then show ?case by simp
next
  case (Cons x xs)
  then show ?case
    by (cases "split_js xs c") (auto simp: split_js_not_Nil split: if_splits)
qed

lemma join_js_split_js: "join_js (split_js s c) [c] = s"
proof (induction s)
  case Nil
  then show ?case by simp
next
  case (Cons x xs)
  obtain p ps where r: "split_js xs c = p # ps"
    by (cases "split_js xs c") (simp_all add: split_js_not_Nil)
  with Cons show ?case
    by (cases ps) auto
qed

lemma length3: "length xs = 3 \<Longrightarrow> \<exists>a b c. xs = [a, b, c]"
  by (cases xs; cases "tl xs"; cases "tl (tl xs)") auto

lemma normalizeScope_three:
  assumes "CHR '':'' \<notin> set a" "CHR '':'' \<notin> set b" "CHR '':'' \<notin> set c"
  shows "normalizeScope (a @ '':'' @ b @ '':'' @ c) =
           (if CHR ''/'' \<in> set b then a @ '':'' @ b @ '':'' @ c
            else a @ '':library/'' @ b @ '':'' @ c)"
proof -
  have "split_js (a @ '':'' @ b @ '':'' @ c) CHR '':'' = [a, b, c]"
    using assms by (simp add: split_js_append split_js_no_sep)
  then show ?thesis
    by (simp add: normalizeScope_def includes_js_def)
qed

section \<open>The router\<close>

lemma handleRequest_mode: "handleRequest rt fetch req = run_mode (handling_mode req) rt fetch req"
  by (simp add: handleRequest_def handling_mode_def run_mode_def Let_def)

lemma length_split_js_5:
  assumes "length (split_js p CHR ''/'') = 5"
  shows "p \<noteq> ''/''" and "p \<noteq> ''/v2/''" and "p \<noteq> ''/auth/token''"
  using assms by auto

lemma drop_default_port_https:
  "drop_default_port ''https:'' h =
     (if 4 \<le> length h \<and> drop (length h - 4) h = '':443'' then take (length h - 4) h else h)"
  by (simp add: drop_default_port_def Let_def eval_nat_numeral)



lemma new_URL_https:
  "new_URL (''https://'' @ h) p =
     \<lparr>protocol = ''https:'', host = drop_default_port ''https:'' h,
      pathname = (if p = [] then ''/'' else p), searchParams = []\<rparr>"
  by (simp add: new_URL_def Let_def)

lemma new_URL_DOCKER_REGISTRY:
  "new_URL DOCKER_REGISTRY p =
     \<lparr>protocol = ''https:'', host = ''registry-1.docker.io'',
      pathname = (if p = [] then ''/'' else p), searchParams = []\<rparr>"
  using new_URL_https [of "''registry-1.docker.io''" p]
  by (simp add: DOCKER_REGISTRY_def drop_default_port_https)

lemma run_mode_Landing:
  "run_mode Landing rt fetch req =
     Inr \<lparr>status = 301, statusText = redirect_statusText rt 301,
          headers = [(''Location'', ''https://www.docker.com/'')], body = ''''\<rparr>"
  using new_URL_https [of "''www.docker.com''" "''''"]
  by (simp add: run_mode_def Response_redirect_def URL_toString_def drop_default_port_https)

lemma run_mode_NamespaceRedirect:
  "run_mode NamespaceRedirect rt fetch req =
     Inr \<lparr>status = 301, statusText = redirect_statusText rt 301,
          headers =
            [(''Location'',
              ''https://'' @ drop_default_port ''https:'' (host (url req)) @
              join_js (take 2 (split_js (pathname (url req)) CHR ''/'') @ [''library''] @
                       drop 2 (split_js (pathname (url req)) CHR ''/'')) ''/'')],
          body = ''''\<rparr>"
  using new_URL_https [of "host (url req)" "''''"]
  by (simp add: run_mode_def Response_redirect_def URL_toString_def splice_js_def)

text \<open>
  A path of four segments without a slash in them splits into five parts, the empty
  one before the first slash included, and \<open>library\<close> goes between the first segment
  and the second.
\<close>

lemma split_js_four_segments:
  assumes "CHR ''/'' \<notin> set a" "CHR ''/'' \<notin> set b" "CHR ''/'' \<notin> set c" "CHR ''/'' \<notin> set d"
  shows "split_js (''/'' @ a @ ''/'' @ b @ ''/'' @ c @ ''/'' @ d) CHR ''/'' = [[], a, b, c, d]"
  using assms by (simp add: split_js_append split_js_no_sep)

lemma handleRequest_four_segments:
  assumes "CHR ''/'' \<notin> set a" "CHR ''/'' \<notin> set b" "CHR ''/'' \<notin> set c" "CHR ''/'' \<notin> set d"
    and "pathname (url req) = ''/'' @ a @ ''/'' @ b @ ''/'' @ c @ ''/'' @ d"
  shows "handleRequest rt fetch req =
           Inr \<lparr>status = 301, statusText = redirect_statusText rt 301,
                headers =
                  [(''Location'',
                    ''https://'' @ drop_default_port ''https:'' (host (url req)) @
                    ''/'' @ a @ ''/library/'' @ b @ ''/'' @ c @ ''/'' @ d)],
                body = ''''\<rparr>"
proof -
  have parts: "split_js (pathname (url req)) CHR ''/'' = [[], a, b, c, d]"
    using assms(5) split_js_four_segments [OF assms(1-4)] by simp
  then have "handling_mode req = NamespaceRedirect"
    using length_split_js_5 [of "pathname (url req)"] by (simp add: handling_mode_def)
  then show ?thesis
    using parts
    by (simp add: handleRequest_mode run_mode_NamespaceRedirect)
qed




text \<open>
  C3. The router tests the path in a fixed order and each request takes exactly one
  branch: \<open>/\<close> is answered with a 301 to https://www.docker.com, whatever the method,
  the query and the rest of the request, the \<open>Location\<close> being that URL as it is
  serialised, with its root path; \<open>/v2/\<close> goes to \<open>challenge\<close>; \<open>/auth/token\<close> goes to
  \<open>getToken\<close>; any other path of five parts is answered with the namespace redirect;
  every other path goes to \<open>getData\<close> with https://registry-1.docker.io as the upstream.
\<close>

theorem handleRequest_dispatch:
  "(pathname (url req) = ''/'' \<longrightarrow>
      handling_mode req = Landing \<and>
      handleRequest rt fetch req =
        Inr \<lparr>status = 301, statusText = redirect_statusText rt 301,
             headers = [(''Location'', ''https://www.docker.com/'')], body = ''''\<rparr>) \<and>
   (pathname (url req) = ''/v2/'' \<longrightarrow>
      handling_mode req = Challenge \<and>
      handleRequest rt fetch req =
        challenge rt fetch ''https://registry-1.docker.io'' (host (url req))) \<and>
   (pathname (url req) = ''/auth/token'' \<longrightarrow>
      handling_mode req = TokenProxy \<and>
      handleRequest rt fetch req = getToken fetch (url req)) \<and>
   (pathname (url req) \<notin> {''/'', ''/v2/'', ''/auth/token''} \<and>
    length (split_js (pathname (url req)) CHR ''/'') = 5 \<longrightarrow>
      handling_mode req = NamespaceRedirect \<and>
      handleRequest rt fetch req =
        Inr \<lparr>status = 301, statusText = redirect_statusText rt 301,
             headers =
               [(''Location'',
                 ''https://'' @ drop_default_port ''https:'' (host (url req)) @
                 join_js (take 2 (split_js (pathname (url req)) CHR ''/'') @ [''library''] @
                          drop 2 (split_js (pathname (url req)) CHR ''/'')) ''/'')],
             body = ''''\<rparr>) \<and>
   (pathname (url req) \<notin> {''/'', ''/v2/'', ''/auth/token''} \<and>
    length (split_js (pathname (url req)) CHR ''/'') \<noteq> 5 \<longrightarrow>
      handling_mode req = GenericProxy \<and>
      handleRequest rt fetch req = getData fetch ''https://registry-1.docker.io'' req)"
proof -
  have landing: "handling_mode req = Landing" if "pathname (url req) = ''/''"
    using that by (simp add: handling_mode_def)
  have chal: "handling_mode req = Challenge" if "pathname (url req) = ''/v2/''"
    using that by (simp add: handling_mode_def)
  have tok: "handling_mode req = TokenProxy" if "pathname (url req) = ''/auth/token''"
    using that by (simp add: handling_mode_def)
  have ns: "handling_mode req = NamespaceRedirect"
    if "pathname (url req) \<notin> {''/'', ''/v2/'', ''/auth/token''}"
      and "length (split_js (pathname (url req)) CHR ''/'') = 5"
    using that by (simp add: handling_mode_def)
  have gen: "handling_mode req = GenericProxy"
    if "pathname (url req) \<notin> {''/'', ''/v2/'', ''/auth/token''}"
      and "length (split_js (pathname (url req)) CHR ''/'') \<noteq> 5"
    using that by (simp add: handling_mode_def)
  have r2: "run_mode Challenge rt fetch req =
        challenge rt fetch ''https://registry-1.docker.io'' (host (url req))"
    by (simp add: run_mode_def DOCKER_REGISTRY_def)
  have r3: "run_mode TokenProxy rt fetch req = getToken fetch (url req)"
    by (simp add: run_mode_def)
  have r5: "run_mode GenericProxy rt fetch req =
        getData fetch ''https://registry-1.docker.io'' req"
    by (simp add: run_mode_def DOCKER_REGISTRY_def)
  show ?thesis
    unfolding handleRequest_mode
    using landing chal tok ns gen r2 r3 r5 run_mode_Landing [of rt fetch req]
      run_mode_NamespaceRedirect [of rt fetch req]
    by metis
qed

theorem handleRequest_dispatch_witness:
  "handleRequest standard_runtime echo (post_request (mirror_url ''/'' [(''q'', ''1'')])) =
     Inr \<lparr>status = 301, statusText = '''',
          headers = [(''Location'', ''https://www.docker.com/'')], body = ''''\<rparr> \<and>
   handleRequest standard_runtime echo (get_request (mirror_url ''/v2/'' [])) =
     challenge standard_runtime echo ''https://registry-1.docker.io'' ''mirror.example.com'' \<and>
   handleRequest standard_runtime echo (get_request (mirror_url ''/auth/token'' [])) =
     getToken echo (mirror_url ''/auth/token'' []) \<and>
   handleRequest standard_runtime echo
       (get_request (mirror_url ''/v2/alpine/manifests/latest'' [])) =
     Inr \<lparr>status = 301, statusText = '''',
          headers =
            [(''Location'', ''https://mirror.example.com/v2/library/alpine/manifests/latest'')],
          body = ''''\<rparr> \<and>
   handleRequest standard_runtime echo
       (get_request (mirror_url ''/v2/library/alpine/manifests/latest'' [])) =
     getData echo ''https://registry-1.docker.io''
       (get_request (mirror_url ''/v2/library/alpine/manifests/latest'' []))"
proof -
  have h: "drop_default_port ''https:'' ''mirror.example.com'' = ''mirror.example.com''"
    by (simp add: drop_default_port_https)
  have a: "handleRequest standard_runtime echo (post_request (mirror_url ''/'' [(''q'', ''1'')])) =
     Inr \<lparr>status = 301, statusText = '''',
          headers = [(''Location'', ''https://www.docker.com/'')], body = ''''\<rparr>"
    using handleRequest_dispatch
            [where req = "post_request (mirror_url ''/'' [(''q'', ''1'')])"
               and rt = standard_runtime and fetch = echo]
    by (simp add: post_request_def mirror_url_def standard_runtime_def)
  have b: "handleRequest standard_runtime echo (get_request (mirror_url ''/v2/'' [])) =
     challenge standard_runtime echo ''https://registry-1.docker.io'' ''mirror.example.com''"
    using handleRequest_dispatch
            [where req = "get_request (mirror_url ''/v2/'' [])"
               and rt = standard_runtime and fetch = echo]
    by (simp add: get_request_def mirror_url_def)
  have c: "handleRequest standard_runtime echo (get_request (mirror_url ''/auth/token'' [])) =
     getToken echo (mirror_url ''/auth/token'' [])"
    using handleRequest_dispatch
            [where req = "get_request (mirror_url ''/auth/token'' [])"
               and rt = standard_runtime and fetch = echo]
    by (simp add: get_request_def mirror_url_def)
  have d: "handleRequest standard_runtime echo
       (get_request (mirror_url ''/v2/alpine/manifests/latest'' [])) =
     Inr \<lparr>status = 301, statusText = '''',
          headers =
            [(''Location'', ''https://mirror.example.com/v2/library/alpine/manifests/latest'')],
          body = ''''\<rparr>"
    using handleRequest_dispatch
            [where req = "get_request (mirror_url ''/v2/alpine/manifests/latest'' [])"
               and rt = standard_runtime and fetch = echo]
    by (simp add: get_request_def mirror_url_def standard_runtime_def h)
  have e: "handleRequest standard_runtime echo
       (get_request (mirror_url ''/v2/library/alpine/manifests/latest'' [])) =
     getData echo ''https://registry-1.docker.io''
       (get_request (mirror_url ''/v2/library/alpine/manifests/latest'' []))"
    using handleRequest_dispatch
            [where req = "get_request (mirror_url ''/v2/library/alpine/manifests/latest'' [])"
               and rt = standard_runtime and fetch = echo]
    by (simp add: get_request_def mirror_url_def)
  from a b c d e show ?thesis by simp
qed


section \<open>The scope normalizer\<close>

lemma normalizeScope_parts:
  "normalizeScope s =
     (if length (split_js s CHR '':'') = 3 \<and> CHR ''/'' \<notin> set (split_js s CHR '':'' ! 1)
      then split_js s CHR '':'' ! 0 @ '':'' @ (''library/'' @ split_js s CHR '':'' ! 1) @ '':'' @
           split_js s CHR '':'' ! 2
      else s)"
proof (cases "length (split_js s CHR '':'') = 3")
  case True
  then obtain a b c where "split_js s CHR '':'' = [a, b, c]"
    using length3 by blast
  then show ?thesis
    by (simp add: normalizeScope_def includes_js_def)
next
  case False
  then show ?thesis
    by (simp add: normalizeScope_def)
qed

text \<open>
  C2. With a \<open>scope\<close> parameter of value \<open>s\<close>, \<open>processScope\<close> returns: when \<open>s\<close> splits
  on the colon into exactly three parts and the second holds no slash, the three parts
  joined by colons with \<open>library/\<close> put before the second; in every other case \<open>s\<close>
  itself. So \<open>repository:ubuntu:pull\<close> becomes \<open>repository:library/ubuntu:pull\<close>, and
  \<open>repository:library/ubuntu:pull\<close> and \<open>repository:someuser/repo:push\<close> stay as they
  are.
\<close>

theorem processScope_normalizes:
  "(searchParams_get (searchParams u) ''scope'' = Some s \<longrightarrow>
      (length (split_js s CHR '':'') = 3 \<and> CHR ''/'' \<notin> set (split_js s CHR '':'' ! 1) \<longrightarrow>
         processScope u =
           Inr (split_js s CHR '':'' ! 0 @ '':'' @ (''library/'' @ split_js s CHR '':'' ! 1) @
                '':'' @ split_js s CHR '':'' ! 2)) \<and>
      (\<not> (length (split_js s CHR '':'') = 3 \<and> CHR ''/'' \<notin> set (split_js s CHR '':'' ! 1)) \<longrightarrow>
         processScope u = Inr s)) \<and>
   processScope (mirror_url ''/auth/token'' [(''scope'', ''repository:ubuntu:pull'')]) =
     Inr ''repository:library/ubuntu:pull'' \<and>
   processScope (mirror_url ''/auth/token'' [(''scope'', ''repository:library/ubuntu:pull'')]) =
     Inr ''repository:library/ubuntu:pull'' \<and>
   processScope (mirror_url ''/auth/token'' [(''scope'', ''repository:someuser/repo:push'')]) =
     Inr ''repository:someuser/repo:push''"
proof -
  have general: "processScope u = Inr (normalizeScope s)"
    if "searchParams_get (searchParams u) ''scope'' = Some s"
    using that by (simp add: processScope_def)
  have e1: "processScope (mirror_url ''/auth/token'' [(''scope'', ''repository:ubuntu:pull'')]) =
     Inr ''repository:library/ubuntu:pull''"
    by (simp add: processScope_def searchParams_get_def mirror_url_def normalizeScope_def
        includes_js_def)
  have e2: "processScope (mirror_url ''/auth/token'' [(''scope'', ''repository:library/ubuntu:pull'')]) =
     Inr ''repository:library/ubuntu:pull''"
    by (simp add: processScope_def searchParams_get_def mirror_url_def normalizeScope_def
        includes_js_def)
  have e3: "processScope (mirror_url ''/auth/token'' [(''scope'', ''repository:someuser/repo:push'')]) =
     Inr ''repository:someuser/repo:push''"
    by (simp add: processScope_def searchParams_get_def mirror_url_def normalizeScope_def
        includes_js_def)
  show ?thesis
    using general normalizeScope_parts [of s] e1 e2 e3 by simp
qed

theorem processScope_normalizes_witness:
  "searchParams_get (searchParams (mirror_url ''/auth/token'' [(''scope'', ''repository:alpine:pull'')]))
     ''scope'' = Some ''repository:alpine:pull'' \<and>
   length (split_js ''repository:alpine:pull'' CHR '':'') = 3 \<and>
   CHR ''/'' \<notin> set (split_js ''repository:alpine:pull'' CHR '':'' ! 1) \<and>
   processScope (mirror_url ''/auth/token'' [(''scope'', ''repository:alpine:pull'')]) =
     Inr ''repository:library/alpine:pull'' \<and>
   searchParams_get (searchParams (mirror_url ''/auth/token'' [(''scope'', ''a:b:c:d'')]))
     ''scope'' = Some ''a:b:c:d'' \<and>
   length (split_js ''a:b:c:d'' CHR '':'') \<noteq> 3 \<and>
   processScope (mirror_url ''/auth/token'' [(''scope'', ''a:b:c:d'')]) = Inr ''a:b:c:d''"
proof -
  have g1: "searchParams_get
              (searchParams (mirror_url ''/auth/token'' [(''scope'', ''repository:alpine:pull'')]))
              ''scope'' = Some ''repository:alpine:pull''"
    by (simp add: searchParams_get_def mirror_url_def)
  have p1: "split_js ''repository:alpine:pull'' CHR '':'' = [''repository'', ''alpine'', ''pull'']"
    by simp
  have g2: "searchParams_get (searchParams (mirror_url ''/auth/token'' [(''scope'', ''a:b:c:d'')]))
              ''scope'' = Some ''a:b:c:d''"
    by (simp add: searchParams_get_def mirror_url_def)
  have p2: "split_js ''a:b:c:d'' CHR '':'' = [''a'', ''b'', ''c'', ''d'']"
    by simp
  have r1: "processScope (mirror_url ''/auth/token'' [(''scope'', ''repository:alpine:pull'')]) =
     Inr ''repository:library/alpine:pull''"
    using processScope_normalizes
            [of "mirror_url ''/auth/token'' [(''scope'', ''repository:alpine:pull'')]"
                "''repository:alpine:pull''"] g1
    unfolding p1 by simp
  have r2: "processScope (mirror_url ''/auth/token'' [(''scope'', ''a:b:c:d'')]) = Inr ''a:b:c:d''"
    using processScope_normalizes [of "mirror_url ''/auth/token'' [(''scope'', ''a:b:c:d'')]" "''a:b:c:d''"] g2
    unfolding p2 by simp
  show ?thesis
    using g1 g2 r1 r2 unfolding p1 p2 by simp
qed

text \<open>
  C7. The scope normalizer is idempotent: normalizing a normalized scope changes
  nothing.
\<close>

theorem normalizeScope_idempotent: "normalizeScope (normalizeScope s) = normalizeScope s"
proof (cases "length (split_js s CHR '':'') = 3 \<and> CHR ''/'' \<notin> set (split_js s CHR '':'' ! 1)")
  case False
  then have "normalizeScope s = s"
    by (auto simp: normalizeScope_def includes_js_def Let_def)
  then show ?thesis by simp
next
  case True
  then obtain a b c where parts: "split_js s CHR '':'' = [a, b, c]"
    using length3 by blast
  have nosep: "CHR '':'' \<notin> set a" "CHR '':'' \<notin> set b" "CHR '':'' \<notin> set c"
    using split_js_parts [of _ s "CHR '':''"] parts by simp_all
  have s: "s = a @ '':'' @ b @ '':'' @ c"
    using join_js_split_js [of s "CHR '':''"] parts by simp
  have b: "CHR ''/'' \<notin> set b"
    using True parts by simp
  have once: "normalizeScope s = a @ '':'' @ (''library/'' @ b) @ '':'' @ c"
    unfolding s using normalizeScope_three [OF nosep] b by simp
  have "normalizeScope (a @ '':'' @ (''library/'' @ b) @ '':'' @ c) =
          a @ '':'' @ (''library/'' @ b) @ '':'' @ c"
    using normalizeScope_three [of a "''library/'' @ b" c] nosep by simp
  with once show ?thesis by simp
qed

theorem normalizeScope_idempotent_witness:
  "normalizeScope ''repository:ubuntu:pull'' = ''repository:library/ubuntu:pull'' \<and>
   normalizeScope ''repository:library/ubuntu:pull'' = ''repository:library/ubuntu:pull''"
proof -
  have "normalizeScope ''repository:ubuntu:pull'' = ''repository:library/ubuntu:pull''"
    by (simp add: normalizeScope_def includes_js_def)
  then show ?thesis
    using normalizeScope_idempotent [of "''repository:ubuntu:pull''"] by simp
qed


section \<open>The handlers\<close>

lemma getToken_Some:
  assumes "searchParams_get (searchParams u) ''scope'' = Some s"
  shows "getToken fetch u =
           fetch \<lparr>url = \<lparr>protocol = ''https:'', host = ''auth.docker.io'', pathname = ''/token'',
                          searchParams = [(''service'', ''registry.docker.io''),
                                          (''scope'', normalizeScope s)]\<rparr>,
                  method_js = ''GET'', headers = [], body = None, redirect = Follow\<rparr>"
  using assms new_URL_https [of "''auth.docker.io''" "''/token''"]
  by (simp add: getToken_def processScope_def searchParams_set_def Request_of_URL_def
      drop_default_port_https)

lemma getToken_None:
  assumes "searchParams_get (searchParams u) ''scope'' = None"
  shows "getToken fetch u = Inl TypeError"
  using assms by (simp add: getToken_def processScope_def)

lemma handleRequest_token:
  "pathname (url req) = ''/auth/token'' \<Longrightarrow> handleRequest rt fetch req = getToken fetch (url req)"
  by (simp add: handleRequest_def)

lemma challenge_request:
  "Request_of_URL (new_URL DOCKER_REGISTRY ''/v2/'') =
     \<lparr>url = \<lparr>protocol = ''https:'', host = ''registry-1.docker.io'', pathname = ''/v2/'',
              searchParams = []\<rparr>,
      method_js = ''GET'', headers = [], body = None, redirect = Follow\<rparr>"
  by (simp add: Request_of_URL_def new_URL_DOCKER_REGISTRY)

lemma length_map_ascii_lower: "length (map ascii_lower s) = length s"
  by simp

lemma Headers_has_WWW_Authenticate:
  "\<not> Headers_has [(''WWW-Authenticate'', v)] ''Content-Type''"
proof
  assume "Headers_has [(''WWW-Authenticate'', v)] ''Content-Type''"
  then have "map ascii_lower ''Content-Type'' = map ascii_lower ''WWW-Authenticate''"
    by (simp add: Headers_has_def)
  then have "length (map ascii_lower ''Content-Type'') =
             length (map ascii_lower ''WWW-Authenticate'')"
    by (rule arg_cong)
  then show False
    unfolding length_map_ascii_lower by simp
qed

lemma utf8_decoder_ascii:
  "\<forall>b \<in> set bs. b < 128 \<Longrightarrow> utf8_decoder utf8_initial bs = bs"
proof (induction bs)
  case Nil
  then show ?case by (simp add: utf8_initial_def)
next
  case (Cons b bs)
  then have "utf8_lead b = ([b], utf8_initial)"
    by (simp add: utf8_lead_def)
  with Cons show ?case
    by (simp add: utf8_initial_def)
qed

lemma utf8_roundtrip_ascii:
  assumes "\<forall>c \<in> set s. (of_char c :: nat) < 128"
  shows "utf8_encode (utf8_decode s) = s"
proof -
  have bom: "take 3 (map of_char s) \<noteq> [0xEF, 0xBB, 0xBF :: nat]"
  proof (cases s)
    case Nil
    then show ?thesis by simp
  next
    case (Cons c cs)
    with assms have "(of_char c :: nat) < 128" by simp
    with Cons show ?thesis by auto
  qed
  have "utf8_decode s = map of_char s"
    using assms bom by (simp add: utf8_decode_def utf8_decoder_ascii)
  moreover have "concat (map utf8_bytes (map of_char s)) = map of_char s"
    using assms by (induction s) (auto simp: utf8_bytes_def)
  ultimately show ?thesis
    by (simp add: utf8_encode_def comp_def)
qed

lemma utf8_decode_FF: "utf8_decode [CHR 0xFF] = [0xFFFD]"
proof -
  have "utf8_lead 255 = ([0xFFFD], utf8_initial)"
    by (simp add: utf8_lead_def)
  then have "utf8_decoder utf8_initial [255] = [0xFFFD]"
    by (simp add: utf8_initial_def)
  then show ?thesis
    by (simp add: utf8_decode_def)
qed

lemma utf8_encode_FFFD: "utf8_encode [0xFFFD] = [CHR 0xEF, CHR 0xBF, CHR 0xBD]"
proof -
  have "utf8_bytes 0xFFFD = [0xEF, 0xBF, 0xBD]"
    by (simp add: utf8_bytes_def)
  moreover have "map char_of [0xEF, 0xBF, 0xBD :: nat] = [CHR 0xEF, CHR 0xBF, CHR 0xBD]"
    by code_simp
  ultimately show ?thesis
    by (simp add: utf8_encode_def)
qed

lemma utf8_roundtrip_FF: "utf8_encode (utf8_decode [CHR 0xFF]) = [CHR 0xEF, CHR 0xBF, CHR 0xBD]"
  by (simp only: utf8_decode_FF utf8_encode_FFFD)

lemma challenge_Inr:
  assumes "fetch (Request_of_URL (new_URL upstream ''/v2/'')) = Inr up"
    and "200 \<le> status up" and "status up \<le> 599"
    and "status up \<notin> {204, 205, 304}"
  shows \<open>challenge rt fetch upstream hst =
           Inr \<lparr>status = status up, statusText = statusText up,
                headers =
                  [(''WWW-Authenticate'',
                    ''Bearer realm="https://'' @ hst @ ''/auth/token",service="docker-proxy-worker"''),
                   (''Content-Type'', ''text/plain;charset=UTF-8'')],
                body = utf8_encode (utf8_decode (response.body up))\<rparr>\<close>
  using assms Headers_has_WWW_Authenticate
  by (simp add: challenge_def new_Response_def Headers_set_def)

text \<open>
  Outside these statuses the constructor does not build the response: a status below
  200 or above 599 is a RangeError, and 204, 205 and 304 are left to the runtime.
\<close>

lemma challenge_RangeError:
  assumes "fetch (Request_of_URL (new_URL upstream ''/v2/'')) = Inr up"
    and "status up < 200 \<or> 599 < status up"
  shows "challenge rt fetch upstream hst = Inl RangeError"
  using assms by (auto simp: challenge_def new_Response_def)

text \<open>
  C4, as amended. A request to \<open>/v2/\<close> makes one GET to
  https://registry-1.docker.io/v2/; when that returns a response with a status from 200
  to 599 other than 204, 205 and 304, the answer has its status and its status text, and
  as body the UTF-8 encoding of the text that the upstream body decodes to, which is the
  upstream body itself when that is ASCII. The answer carries two headers:
  \<open>WWW-Authenticate\<close>, whose realm is the token path on the host of the request, and the
  \<open>Content-Type\<close> that the constructor adds for a text. The headers of the upstream
  response do not appear.
\<close>

theorem challenge_response:
  assumes "pathname (url req) = ''/v2/''"
    and "fetch \<lparr>url = \<lparr>protocol = ''https:'', host = ''registry-1.docker.io'',
                        pathname = ''/v2/'', searchParams = []\<rparr>,
                method_js = ''GET'', headers = [], body = None, redirect = Follow\<rparr> = Inr up"
    and "200 \<le> status up" and "status up \<le> 599"
    and "status up \<notin> {204, 205, 304}"
  shows \<open>handleRequest rt fetch req =
           Inr \<lparr>status = status up, statusText = statusText up,
                headers =
                  [(''WWW-Authenticate'',
                    ''Bearer realm="https://'' @ host (url req) @
                    ''/auth/token",service="docker-proxy-worker"''),
                   (''Content-Type'', ''text/plain;charset=UTF-8'')],
                body = utf8_encode (utf8_decode (response.body up))\<rparr> \<and>
         ((\<forall>c \<in> set (response.body up). (of_char c :: nat) < 128) \<longrightarrow>
            utf8_encode (utf8_decode (response.body up)) = response.body up)\<close>
proof -
  have "fetch (Request_of_URL (new_URL DOCKER_REGISTRY ''/v2/'')) = Inr up"
    using assms(2) by (simp add: challenge_request)
  then have \<open>challenge rt fetch DOCKER_REGISTRY (host (url req)) =
           Inr \<lparr>status = status up, statusText = statusText up,
                headers =
                  [(''WWW-Authenticate'',
                    ''Bearer realm="https://'' @ host (url req) @
                    ''/auth/token",service="docker-proxy-worker"''),
                   (''Content-Type'', ''text/plain;charset=UTF-8'')],
                body = utf8_encode (utf8_decode (response.body up))\<rparr>\<close>
    using assms(3-5) by (rule challenge_Inr)
  then show ?thesis
    using assms(1) utf8_roundtrip_ascii [of "response.body up"]
    by (simp add: handleRequest_def)
qed

theorem challenge_response_witness:
  \<open>handleRequest standard_runtime upstream_401 (get_request (mirror_url ''/v2/'' [])) =
     Inr \<lparr>status = 401, statusText = ''Unauthorized'',
          headers =
            [(''WWW-Authenticate'',
              ''Bearer realm="https://mirror.example.com/auth/token",service="docker-proxy-worker"''),
             (''Content-Type'', ''text/plain;charset=UTF-8'')],
          body = ''{}''\<rparr>\<close>
proof -
  have p: "pathname (url (get_request (mirror_url ''/v2/'' []))) = ''/v2/''"
    by (simp add: get_request_def mirror_url_def)
  have f: "upstream_401 \<lparr>url = \<lparr>protocol = ''https:'', host = ''registry-1.docker.io'',
                         pathname = ''/v2/'', searchParams = []\<rparr>,
                 method_js = ''GET'', headers = [], body = None, redirect = Follow\<rparr> =
     Inr \<lparr>status = 401, statusText = ''Unauthorized'',
          headers = [(''Docker-Distribution-Api-Version'', ''registry/2.0'')], body = ''{}''\<rparr>"
    by (simp add: upstream_401_def)
  have ascii: "\<forall>c \<in> set ''{}''. (of_char c :: nat) < 128"
    by simp
  show ?thesis
    using challenge_response [where fetch = upstream_401 and rt = standard_runtime, OF p f] ascii
    by (simp add: get_request_def mirror_url_def)
qed

text \<open>
  The claim as it was stated, with one header and the body of the upstream, fails on
  the same request: the answer has two headers; and for an upstream body that is not
  UTF-8, here the byte FF, the body of the answer is the encoding of U+FFFD.
\<close>

theorem challenge_response_counterexample:
  \<open>handleRequest standard_runtime upstream_401 (get_request (mirror_url ''/v2/'' [])) \<noteq>
     Inr \<lparr>status = 401, statusText = ''Unauthorized'',
          headers =
            [(''WWW-Authenticate'',
              ''Bearer realm="https://mirror.example.com/auth/token",service="docker-proxy-worker"'')],
          body = ''{}''\<rparr> \<and>
   handleRequest standard_runtime upstream_byte_FF (get_request (mirror_url ''/v2/'' [])) =
     Inr \<lparr>status = 401, statusText = ''Unauthorized'',
          headers =
            [(''WWW-Authenticate'',
              ''Bearer realm="https://mirror.example.com/auth/token",service="docker-proxy-worker"''),
             (''Content-Type'', ''text/plain;charset=UTF-8'')],
          body = [CHR 0xEF, CHR 0xBF, CHR 0xBD]\<rparr>\<close>
proof -
  have f1: "upstream_401 (Request_of_URL (new_URL DOCKER_REGISTRY ''/v2/'')) =
     Inr \<lparr>status = 401, statusText = ''Unauthorized'',
          headers = [(''Docker-Distribution-Api-Version'', ''registry/2.0'')], body = ''{}''\<rparr>"
    by (simp add: upstream_401_def)
  have f2: "upstream_byte_FF (Request_of_URL (new_URL DOCKER_REGISTRY ''/v2/'')) =
     Inr \<lparr>status = 401, statusText = ''Unauthorized'', headers = [], body = [CHR 0xFF]\<rparr>"
    by (simp add: upstream_byte_FF_def)
  have c1: "length (response.headers r) = 2"
    if "challenge standard_runtime upstream_401 DOCKER_REGISTRY ''mirror.example.com'' = Inr r"
    for r
    using that challenge_Inr [where fetch = upstream_401 and rt = standard_runtime
            and hst = "''mirror.example.com''", OF f1] by auto
  have c2: \<open>challenge standard_runtime upstream_byte_FF DOCKER_REGISTRY ''mirror.example.com'' =
     Inr \<lparr>status = 401, statusText = ''Unauthorized'',
          headers =
            [(''WWW-Authenticate'',
              ''Bearer realm="https://mirror.example.com/auth/token",service="docker-proxy-worker"''),
             (''Content-Type'', ''text/plain;charset=UTF-8'')],
          body = [CHR 0xEF, CHR 0xBF, CHR 0xBD]\<rparr>\<close>
    using challenge_Inr [where fetch = upstream_byte_FF and rt = standard_runtime
            and hst = "''mirror.example.com''", OF f2]
    by (simp add: utf8_roundtrip_FF)
  have h: "handleRequest standard_runtime fetch (get_request (mirror_url ''/v2/'' [])) =
     challenge standard_runtime fetch DOCKER_REGISTRY ''mirror.example.com''" for fetch
    by (simp add: handleRequest_def get_request_def mirror_url_def)
  show ?thesis
    using c1 c2 unfolding h by auto
qed

text \<open>
  C5. A request to \<open>/auth/token\<close> with a \<open>scope\<close> parameter makes one call, to
  https://auth.docker.io/token with the two query parameters \<open>service\<close>, of value
  \<open>registry.docker.io\<close>, and \<open>scope\<close>, of the normalized value, in this order and no
  other; what that call returns, a response or a failure, is the result as it is.
\<close>

theorem getToken_outbound:
  assumes "pathname (url req) = ''/auth/token''"
    and "searchParams_get (searchParams (url req)) ''scope'' = Some s"
  shows "handleRequest rt fetch req =
           fetch \<lparr>url = \<lparr>protocol = ''https:'', host = ''auth.docker.io'', pathname = ''/token'',
                          searchParams = [(''service'', ''registry.docker.io''),
                                          (''scope'', normalizeScope s)]\<rparr>,
                  method_js = ''GET'', headers = [], body = None, redirect = Follow\<rparr>"
  using assms by (simp add: handleRequest_token getToken_Some)

theorem getToken_outbound_witness:
  "pathname (url (get_request (mirror_url ''/auth/token''
      [(''account'', ''bob''), (''scope'', ''repository:alpine:pull''), (''service'', ''x'')]))) =
     ''/auth/token'' \<and>
   searchParams_get (searchParams (url (get_request (mirror_url ''/auth/token''
      [(''account'', ''bob''), (''scope'', ''repository:alpine:pull''), (''service'', ''x'')]))))
     ''scope'' = Some ''repository:alpine:pull'' \<and>
   handleRequest standard_runtime echo (get_request (mirror_url ''/auth/token''
      [(''account'', ''bob''), (''scope'', ''repository:alpine:pull''), (''service'', ''x'')])) =
     Inr \<lparr>status = 200, statusText = ''OK'',
          headers = [(''service'', ''registry.docker.io''),
                     (''scope'', ''repository:library/alpine:pull'')],
          body = ''/token''\<rparr>"
proof -
  have p: "pathname (url (get_request (mirror_url ''/auth/token''
      [(''account'', ''bob''), (''scope'', ''repository:alpine:pull''), (''service'', ''x'')]))) =
     ''/auth/token''"
    by (simp add: get_request_def mirror_url_def)
  have g: "searchParams_get (searchParams (url (get_request (mirror_url ''/auth/token''
      [(''account'', ''bob''), (''scope'', ''repository:alpine:pull''), (''service'', ''x'')]))))
     ''scope'' = Some ''repository:alpine:pull''"
    by (simp add: get_request_def mirror_url_def searchParams_get_def)
  have n: "normalizeScope ''repository:alpine:pull'' = ''repository:library/alpine:pull''"
    by (simp add: normalizeScope_def includes_js_def)
  show ?thesis
    using p g getToken_outbound [where rt = standard_runtime and fetch = echo, OF p g]
    by (simp add: n echo_def)
qed

text \<open>
  C6. The generic proxy makes one call: to the upstream base
  https://registry-1.docker.io followed by the path of the inbound request, without its
  query, with the method and the headers of the inbound request and the redirect policy
  manual; what that call returns is the result as it is. This is what \<open>handleRequest\<close>
  does with every request that takes the generic branch.
\<close>

theorem getData_outbound:
  "getData fetch DOCKER_REGISTRY req =
     fetch \<lparr>url = \<lparr>protocol = ''https:'', host = ''registry-1.docker.io'',
                    pathname = (if pathname (url req) = [] then ''/'' else pathname (url req)),
                    searchParams = []\<rparr>,
            method_js = method_js req, headers = headers req, body = None, redirect = Manual\<rparr> \<and>
   (pathname (url req) \<noteq> [] \<longrightarrow>
      URL_toString (new_URL DOCKER_REGISTRY (pathname (url req))) =
        ''https://registry-1.docker.io'' @ pathname (url req)) \<and>
   (handling_mode req = GenericProxy \<longrightarrow>
      handleRequest rt fetch req = getData fetch DOCKER_REGISTRY req)"
  by (simp add: getData_def new_URL_DOCKER_REGISTRY URL_toString_def handleRequest_mode
      run_mode_def)

theorem getData_outbound_witness:
  "pathname (url (post_request (mirror_url ''/v2/library/alpine/blobs/sha256:abc'' [(''n'', ''5'')])))
     \<noteq> [] \<and>
   handling_mode (post_request (mirror_url ''/v2/library/alpine/blobs/sha256:abc'' [(''n'', ''5'')])) =
     GenericProxy \<and>
   handleRequest standard_runtime echo
       (post_request (mirror_url ''/v2/library/alpine/blobs/sha256:abc'' [(''n'', ''5'')])) =
     echo \<lparr>url = \<lparr>protocol = ''https:'', host = ''registry-1.docker.io'',
                    pathname = ''/v2/library/alpine/blobs/sha256:abc'', searchParams = []\<rparr>,
            method_js = ''POST'', headers = [(''Authorization'', ''Bearer abc'')], body = None,
            redirect = Manual\<rparr>"
proof -
  have m: "handling_mode
             (post_request (mirror_url ''/v2/library/alpine/blobs/sha256:abc'' [(''n'', ''5'')])) =
           GenericProxy"
    by (simp add: handling_mode_def post_request_def mirror_url_def)
  show ?thesis
    using m getData_outbound
              [where rt = standard_runtime and fetch = echo
                 and req = "post_request (mirror_url ''/v2/library/alpine/blobs/sha256:abc''
                              [(''n'', ''5'')])"]
    by (simp add: post_request_def mirror_url_def)
qed

text \<open>
  C8. A request to \<open>/auth/token\<close> without a \<open>scope\<close> parameter fails with the TypeError
  of \<open>null.split\<close>, whatever the network would answer: nothing is fetched and there is
  no fallback.
\<close>

theorem getToken_missing_scope:
  assumes "pathname (url req) = ''/auth/token''"
    and "searchParams_get (searchParams (url req)) ''scope'' = None"
  shows "handleRequest rt fetch req = Inl TypeError"
  using assms by (simp add: handleRequest_token getToken_None)

theorem getToken_missing_scope_witness:
  "pathname (url (get_request (mirror_url ''/auth/token'' [(''service'', ''registry.docker.io'')]))) =
     ''/auth/token'' \<and>
   searchParams_get
     (searchParams (url (get_request (mirror_url ''/auth/token'' [(''service'', ''registry.docker.io'')]))))
     ''scope'' = None \<and>
   handleRequest standard_runtime echo (get_request (mirror_url ''/auth/token'' [(''service'', ''registry.docker.io'')])) =
     Inl TypeError"
proof -
  have p: "pathname (url (get_request (mirror_url ''/auth/token''
             [(''service'', ''registry.docker.io'')]))) = ''/auth/token''"
    by (simp add: get_request_def mirror_url_def)
  have g: "searchParams_get
             (searchParams (url (get_request (mirror_url ''/auth/token''
                [(''service'', ''registry.docker.io'')])))) ''scope'' = None"
    by (simp add: get_request_def mirror_url_def searchParams_get_def)
  show ?thesis
    using p g getToken_missing_scope [where rt = standard_runtime and fetch = echo, OF p g] by simp
qed

text \<open>
  C9. Two requests to \<open>/auth/token\<close> with the same value of \<open>scope\<close> make the same call
  to the token service, whatever their methods, headers, bodies, hosts and other query
  parameters: a GET without headers and without a body.
\<close>

theorem getToken_ignores_request:
  assumes "pathname (url r1) = ''/auth/token''" and "pathname (url r2) = ''/auth/token''"
    and "searchParams_get (searchParams (url r1)) ''scope'' = Some s"
    and "searchParams_get (searchParams (url r2)) ''scope'' = Some s"
  shows "\<exists>out. method_js out = ''GET'' \<and> headers out = [] \<and> body out = None \<and>
           (\<forall>rt fetch. handleRequest rt fetch r1 = fetch out \<and> handleRequest rt fetch r2 = fetch out)"
proof -
  let ?out = "\<lparr>url = \<lparr>protocol = ''https:'', host = ''auth.docker.io'', pathname = ''/token'',
                        searchParams = [(''service'', ''registry.docker.io''),
                                        (''scope'', normalizeScope s)]\<rparr>,
                method_js = ''GET'', headers = [], body = None, redirect = Follow\<rparr>"
  have "handleRequest rt fetch r1 = fetch ?out \<and> handleRequest rt fetch r2 = fetch ?out" for rt fetch
    using assms by (simp add: handleRequest_token getToken_Some)
  moreover have "method_js ?out = ''GET'' \<and> headers ?out = [] \<and> body ?out = None"
    by simp
  ultimately show ?thesis by blast
qed

theorem getToken_ignores_request_witness:
  "\<exists>out. method_js out = ''GET'' \<and> headers out = [] \<and> body out = None \<and>
     (\<forall>rt fetch.
        handleRequest rt fetch
          (post_request (mirror_url ''/auth/token''
             [(''scope'', ''repository:alpine:pull''), (''account'', ''bob'')])) = fetch out \<and>
        handleRequest rt fetch
          (get_request (mirror_url ''/auth/token'' [(''scope'', ''repository:alpine:pull'')])) =
          fetch out)"
proof -
  have p1: "pathname (url (post_request (mirror_url ''/auth/token''
              [(''scope'', ''repository:alpine:pull''), (''account'', ''bob'')]))) = ''/auth/token''"
    by (simp add: post_request_def mirror_url_def)
  have p2: "pathname (url (get_request (mirror_url ''/auth/token''
              [(''scope'', ''repository:alpine:pull'')]))) = ''/auth/token''"
    by (simp add: get_request_def mirror_url_def)
  have g1: "searchParams_get (searchParams (url (post_request (mirror_url ''/auth/token''
              [(''scope'', ''repository:alpine:pull''), (''account'', ''bob'')])))) ''scope'' =
            Some ''repository:alpine:pull''"
    by (simp add: post_request_def mirror_url_def searchParams_get_def)
  have g2: "searchParams_get (searchParams (url (get_request (mirror_url ''/auth/token''
              [(''scope'', ''repository:alpine:pull'')])))) ''scope'' =
            Some ''repository:alpine:pull''"
    by (simp add: get_request_def mirror_url_def searchParams_get_def)
  show ?thesis
    by (rule getToken_ignores_request [OF p1 p2 g1 g2])
qed

text \<open>
  C10. The branch that \<open>handleRequest\<close> takes depends on the path alone: two requests
  with the same path take the same branch, whatever their methods, headers, bodies,
  queries and hosts, and each is answered by what that branch returns for it.
\<close>

theorem handling_mode_path_only:
  assumes "pathname (url r1) = pathname (url r2)"
  shows "handling_mode r1 = handling_mode r2 \<and>
         handleRequest rt fetch r1 = run_mode (handling_mode r2) rt fetch r1 \<and>
         handleRequest rt fetch r2 = run_mode (handling_mode r1) rt fetch r2"
proof -
  have "handling_mode r1 = handling_mode r2"
    using assms by (simp add: handling_mode_def)
  then show ?thesis
    by (simp add: handleRequest_mode)
qed

theorem handling_mode_path_only_witness:
  "pathname (url (post_request
       \<lparr>protocol = ''http:'', host = ''other.example.org:8080'',
        pathname = ''/v2/alpine/manifests/latest'', searchParams = [(''scope'', ''x'')]\<rparr>)) =
     pathname (url (get_request (mirror_url ''/v2/alpine/manifests/latest'' []))) \<and>
   handling_mode (post_request
       \<lparr>protocol = ''http:'', host = ''other.example.org:8080'',
        pathname = ''/v2/alpine/manifests/latest'', searchParams = [(''scope'', ''x'')]\<rparr>) =
     NamespaceRedirect \<and>
   handling_mode (get_request (mirror_url ''/v2/alpine/manifests/latest'' [])) = NamespaceRedirect"
proof -
  have p: "pathname (url (post_request
       \<lparr>protocol = ''http:'', host = ''other.example.org:8080'',
        pathname = ''/v2/alpine/manifests/latest'', searchParams = [(''scope'', ''x'')]\<rparr>)) =
     pathname (url (get_request (mirror_url ''/v2/alpine/manifests/latest'' [])))"
    by (simp add: post_request_def get_request_def mirror_url_def)
  have m: "handling_mode (get_request (mirror_url ''/v2/alpine/manifests/latest'' [])) =
             NamespaceRedirect"
    by (simp add: handling_mode_def get_request_def mirror_url_def)
  show ?thesis
    using p m handling_mode_path_only [where rt = standard_runtime and fetch = echo, OF p] by simp
qed


end
